theory Spec2Isabelle
  imports Main "HOL-Library.Char_ord" "HOL-Library.List_Lexorder"
begin

section \<open>Errors and results\<close>

text \<open>
  A thrown JavaScript value (or a rejected promise) is a value of \<open>err\<close>; a function
  that can throw returns \<open>err + 'a\<close>, with \<open>Inl\<close> for the throw. \<open>CliError\<close> carries
  the error code, \<open>AssertionError\<close> the message given to \<open>ok\<close>, \<open>TypeError\<close> is what
  the runtime raises for a call on a value without that method, and \<open>Thrown\<close> is an
  error raised inside a collaborator that is not among the sources.
\<close>

datatype err =
    CliError string
  | AssertionError string
  | TypeError string
  | Thrown string

definition and_then :: "err + 'a \<Rightarrow> ('a \<Rightarrow> err + 'b) \<Rightarrow> err + 'b" where
  "and_then m f = (case m of Inl e \<Rightarrow> Inl e | Inr v \<Rightarrow> f v)"

definition ok :: "bool \<Rightarrow> string \<Rightarrow> err + unit" where
  "ok cond message = (if cond then Inr () else Inl (AssertionError message))"

fun map_err :: "('a \<Rightarrow> err + 'b) \<Rightarrow> 'a list \<Rightarrow> err + 'b list" where
  "map_err f [] = Inr []"
| "map_err f (x # xs) =
     (case f x of
        Inl e \<Rightarrow> Inl e
      | Inr y \<Rightarrow> (case map_err f xs of Inl e \<Rightarrow> Inl e | Inr ys \<Rightarrow> Inr (y # ys)))"

definition newline :: char where
  "newline = CHR 0x0A"

definition double_quote :: char where
  "double_quote = CHR 0x22"

text \<open>\<open>String.prototype.includes\<close>: does \<open>needle\<close> occur in \<open>hay\<close> as a substring.\<close>

fun starts_with :: "string \<Rightarrow> string \<Rightarrow> bool" where
  "starts_with [] hay = True"
| "starts_with (c # cs) [] = False"
| "starts_with (c # cs) (h # hs) = (c = h \<and> starts_with cs hs)"

fun includes_str :: "string \<Rightarrow> string \<Rightarrow> bool" where
  "includes_str needle [] = starts_with needle []"
| "includes_str needle (h # hs) = (starts_with needle (h # hs) \<or> includes_str needle hs)"

text \<open>
  A concrete \<open>join\<close> for evaluating the functions at concrete inputs. \<open>utils/path\<close> is
  not among the sources, so every function below takes \<open>join\<close> as an argument; this
  one puts a slash between its two arguments.
\<close>

definition join_slash :: "string \<Rightarrow> string \<Rightarrow> string" where
  "join_slash a b = a @ ''/'' @ b"

section \<open>The data model\<close>

text \<open>
  Modelled from the spec: the \<open>Dependency\<close> type of \<open>manifest/dependency\<close>, which is
  not among the sources. It is the closed variant of the data model: a registry
  dependency (name, SemVer range, registry, features), a path dependency (name, path,
  optional version) and a git dependency (name, url, one ref discriminator, optional
  version). \<open>isRegistryDependency\<close>, \<open>isPathDependency\<close> and \<open>isGitDependency\<close> test
  the variant; \<open>has(d, 'rev')\<close>, \<open>has(d, 'tag')\<close> and \<open>has(d, 'branch')\<close> test the
  discriminator.
\<close>

datatype refspec = Rev string | Tag string | Branch string

datatype dependency =
    Registry string string string "string list"
  | Path string string "string option"
  | Git string string refspec "string option"

fun dep_name :: "dependency \<Rightarrow> string" where
  "dep_name (Registry n v r fs) = n"
| "dep_name (Path n p v) = n"
| "dep_name (Git n g r v) = n"

text \<open>
  \<open>Registration\<close> (\<open>sources/registration\<close>): id, name, version, source and the
  dependencies. The lockfile reader holds registrations whose dependencies are still
  the id strings of the file, so the type of the dependencies is a parameter.
\<close>

record 'd registration =
  reg_id :: string
  reg_name :: string
  reg_version :: string
  reg_source :: string
  reg_dependencies :: "'d list"

text \<open>\<open>Source\<close> (a \<open>src\<close> entry of the manifest), \<open>Target\<close>, \<open>Manifest\<close> and \<open>Project\<close>,
  with the fields the functions below read.\<close>

record source =
  src_name :: string
  src_path :: string

record target =
  tgt_type :: string
  tgt_name :: string
  tgt_path :: string
  tgt_filename :: string
  tgt_blank :: bool

record manifest =
  mf_name :: string
  mf_version :: string
  mf_src :: "source list"
  mf_target :: "target option"

record paths =
  p_dir :: string
  p_staging :: string

record project =
  pr_manifest :: manifest
  pr_paths :: paths

record component =
  cmp_name :: string
  cmp_filename :: string

record changeset =
  cs_added :: "component list"
  cs_changed :: "component list"
  cs_removed :: "component list"

section \<open>reporter.ts: the message of resolve-failed\<close>

text \<open>
  \<open>ErrorMessages['resolve-failed']\<close> is \<open>{ details?: string }\<close>; the renderer of
  \<open>messages.errors\<close> is \<open>() => dedent`...`\<close>: it takes no parameter and returns the
  dedented template, two sentences with an empty line between them.
\<close>

record resolve_failed_values =
  rf_details :: "string option"

definition resolve_failed :: "resolve_failed_values \<Rightarrow> string" where
  "resolve_failed values =
     ''Unable to resolve dependency graph for project.'' @ [newline, newline] @
     ''There are dependencies that cannot be satisfied.''"

section \<open>The path source backend\<close>

text \<open>
  \<open>match(type)\<close>: a string is compared with \<open>'path'\<close>, a dependency is tested with
  \<open>isPathDependency\<close>. \<open>resolve\<close> and \<open>fetch\<close> are async functions whose bodies are a
  TODO comment and \<open>return []\<close>, respectively \<open>return ''\<close>.
\<close>

fun isPathDependency :: "dependency \<Rightarrow> bool" where
  "isPathDependency (Path n p v) = True"
| "isPathDependency d = False"

definition path_match :: "string + dependency \<Rightarrow> bool" where
  "path_match type = (case type of Inl s \<Rightarrow> s = ''path'' | Inr d \<Rightarrow> isPathDependency d)"

definition path_resolve :: "'config \<Rightarrow> dependency \<Rightarrow> err + dependency registration list" where
  "path_resolve config dependency = Inr []"

definition path_fetch :: "'config \<Rightarrow> dependency registration \<Rightarrow> err + string" where
  "path_fetch config registration = Inr ''''"

section \<open>getStaging\<close>

text \<open>
  \<open>process.platform\<close>, \<open>homedir()\<close>, \<open>join\<close> and \<open>ensureDirSync\<close> are arguments;
  \<open>ensureDirSync\<close> acts on the file system \<open>'fs\<close> and can throw.
\<close>

definition findMacOfficeContainer :: "(string \<Rightarrow> string \<Rightarrow> string) \<Rightarrow> string \<Rightarrow> string" where
  "findMacOfficeContainer join homedir = join homedir ''Library/Group Containers/UBF8T346G9.Office''"

definition getStaging ::
  "(string \<Rightarrow> string \<Rightarrow> string) \<Rightarrow> (string \<Rightarrow> 'fs \<Rightarrow> err + 'fs) \<Rightarrow> string \<Rightarrow> string \<Rightarrow>
   string \<Rightarrow> 'fs \<Rightarrow> err + (string \<times> 'fs)" where
  "getStaging join ensureDirSync platform homedir cache fs =
     (let staging =
        (if platform = ''win32'' then join cache ''staging''
         else join (findMacOfficeContainer join homedir) ''.vba-blocks'')
      in and_then (ensureDirSync staging fs) (\<lambda>fs'. Inr (staging, fs')))"

section \<open>apply-changeset.ts: updateManifest\<close>

text \<open>
  \<open>Array.prototype.findIndex\<close> gives the first index whose element satisfies the
  predicate, or \<open>-1\<close>. \<open>splice(index, 1)\<close> counts a negative index from the end of the
  array (\<open>max(len + index, 0)\<close>), clamps a positive one to the length, and removes the
  one element there, if there is one.
\<close>

fun findIndex :: "('a \<Rightarrow> bool) \<Rightarrow> 'a list \<Rightarrow> int" where
  "findIndex p [] = - 1"
| "findIndex p (x # xs) =
     (if p x then 0 else (let i = findIndex p xs in if i < 0 then - 1 else i + 1))"

definition splice1 :: "int \<Rightarrow> 'a list \<Rightarrow> 'a list" where
  "splice1 index xs =
     (let len = int (length xs);
          start = (if index < 0 then max (len + index) 0 else min index len)
      in take (nat start) xs @ drop (nat start + 1) xs)"

text \<open>
  The two loops of \<open>updateManifest\<close>, on the project (whose \<open>manifest.src\<close> they
  mutate) and the list \<open>changes\<close>. \<open>addSource\<close> and \<open>removeSource\<close>
  (\<open>manifest/patch-manifest\<close>) are arguments; each is called with the manifest as it
  is after the mutation.
\<close>

definition set_src :: "project \<Rightarrow> source list \<Rightarrow> project" where
  "set_src project src = project\<lparr>pr_manifest := (pr_manifest project)\<lparr>mf_src := src\<rparr>\<rparr>"

fun add_loop ::
  "(string \<Rightarrow> string \<Rightarrow> string) \<Rightarrow> (manifest \<Rightarrow> source \<Rightarrow> 'c) \<Rightarrow> component list \<Rightarrow>
   project \<times> 'c list \<Rightarrow> project \<times> 'c list" where
  "add_loop join addSource [] (project, changes) = (project, changes)"
| "add_loop join addSource (component # rest) (project, changes) =
     (let source = \<lparr>src_name = cmp_name component,
                     src_path = join (p_dir (pr_paths project)) (''src/'' @ cmp_filename component)\<rparr>;
          project' = set_src project (mf_src (pr_manifest project) @ [source])
      in add_loop join addSource rest
           (project', changes @ [addSource (pr_manifest project') source]))"

fun remove_loop ::
  "(manifest \<Rightarrow> string \<Rightarrow> 'c) \<Rightarrow> component list \<Rightarrow> project \<times> 'c list \<Rightarrow> project \<times> 'c list" where
  "remove_loop removeSource [] (project, changes) = (project, changes)"
| "remove_loop removeSource (component # rest) (project, changes) =
     (let index = findIndex (\<lambda>source. src_name source = cmp_name component)
                    (mf_src (pr_manifest project));
          project' = set_src project (splice1 index (mf_src (pr_manifest project)))
      in remove_loop removeSource rest
           (project', changes @ [removeSource (pr_manifest project') (cmp_name component)]))"

text \<open>\<open>updateManifest\<close>: the project as mutated, and what \<open>applyChanges(changes)\<close>
  returns.\<close>

definition updateManifest ::
  "(string \<Rightarrow> string \<Rightarrow> string) \<Rightarrow> (manifest \<Rightarrow> source \<Rightarrow> 'c) \<Rightarrow> (manifest \<Rightarrow> string \<Rightarrow> 'c) \<Rightarrow>
   ('c list \<Rightarrow> 'r) \<Rightarrow> project \<Rightarrow> changeset \<Rightarrow> project \<times> 'r" where
  "updateManifest join addSource removeSource applyChanges project changeset =
     (case remove_loop removeSource (cs_removed changeset)
             (add_loop join addSource (cs_added changeset) (project, []))
      of (project', changes) \<Rightarrow> (project', applyChanges changes))"

text \<open>The \<open>src\<close> list of the manifest after \<open>updateManifest\<close>.\<close>

definition src_after ::
  "(string \<Rightarrow> string \<Rightarrow> string) \<Rightarrow> project \<Rightarrow> changeset \<Rightarrow> source list" where
  "src_after join project changeset =
     mf_src (pr_manifest (fst (updateManifest join (\<lambda>m s. ()) (\<lambda>m n. ()) (\<lambda>cs. ()) project changeset)))"

text \<open>
  What the remove loop does to \<open>manifest.src\<close>, one \<open>findIndex\<close> and \<open>splice\<close> for
  each removed component in turn; the entry \<open>updateManifest\<close> pushes for an added
  component; and \<open>delete_first\<close>, which drops the first element that satisfies a
  predicate.
\<close>

fun splice_all :: "component list \<Rightarrow> source list \<Rightarrow> source list" where
  "splice_all [] src = src"
| "splice_all (c # cs) src =
     splice_all cs (splice1 (findIndex (\<lambda>s. src_name s = cmp_name c) src) src)"

definition new_source :: "(string \<Rightarrow> string \<Rightarrow> string) \<Rightarrow> string \<Rightarrow> component \<Rightarrow> source" where
  "new_source join dir c = \<lparr>src_name = cmp_name c, src_path = join dir (''src/'' @ cmp_filename c)\<rparr>"


text \<open>A project with two \<open>src\<close> entries and a component named \<open>n\<close>, for concrete
  evaluation.\<close>

definition project0 :: project where
  "project0 = \<lparr>pr_manifest = \<lparr>mf_name = ''app'', mf_version = ''1.0.0'',
       mf_src = [\<lparr>src_name = ''Module1'', src_path = ''/app/src/Module1.bas''\<rparr>,
                 \<lparr>src_name = ''Module2'', src_path = ''/app/src/Module2.bas''\<rparr>],
       mf_target = None\<rparr>,
     pr_paths = \<lparr>p_dir = ''/app'', p_staging = ''/cache/staging''\<rparr>\<rparr>"

definition component0 :: "string \<Rightarrow> component" where
  "component0 n = \<lparr>cmp_name = n, cmp_filename = n @ ''.bas''\<rparr>"

definition source0 :: "string \<Rightarrow> source" where
  "source0 n = \<lparr>src_name = n, src_path = ''/app/src/'' @ n @ ''.bas''\<rparr>"

definition removal0 :: "string list \<Rightarrow> changeset" where
  "removal0 names = \<lparr>cs_added = [], cs_changed = [], cs_removed = map component0 names\<rparr>"


section \<open>export-project.ts: exportProject\<close>
















section \<open>The lockfile: data\<close>

text \<open>
  What \<open>parseToml\<close> returns and \<open>convertToToml\<close> takes: a tree of scalars, arrays and
  string-keyed tables. A document is a table.
\<close>

datatype toml =
    TStr string
  | TInt int
  | TBool bool
  | TArr "toml list"
  | TTab "(string \<times> toml) list"

type_synonym table = "(string \<times> toml) list"

text \<open>
  \<open>Snapshot\<close>, the workspace and \<open>Lockfile\<close>. \<open>fromToml\<close> stores \<open>parsed.metadata\<close> as it
  is, so \<open>metadata\<close> is an optional tree.
\<close>

record snapshot =
  sn_name :: string
  sn_version :: string
  sn_dependencies :: "dependency list"

record workspace =
  ws_root :: snapshot
  ws_members :: "snapshot list"

record lockfile =
  lf_metadata :: "toml option"
  lf_workspace :: workspace
  lf_packages :: "dependency registration list"

definition LOCKFILE_VERSION :: string where
  "LOCKFILE_VERSION = ''1''"

text \<open>
  The collaborators of the lockfile module that are not among the sources:
  \<open>satisfies\<close> of semver, \<open>loadManifest\<close>, \<open>join\<close>, \<open>relative\<close> and \<open>trailing\<close> of
  \<open>utils/path\<close>, \<open>toLockfile\<close> (imported as \<open>convertToToml\<close>) and \<open>parse\<close> of \<open>utils/toml\<close>,
  \<open>getRegistrationId\<close>, \<open>getRegistrationSource\<close>, \<open>getSourceParts\<close> and \<open>toDependency\<close> of
  \<open>sources/registration\<close>, the \<open>version\<close> of \<open>package.json\<close>, and \<open>pathExists\<close>,
  \<open>readFile\<close> and \<open>writeFile\<close> of \<open>utils/fs\<close>, which act on the file system \<open>'w\<close>.
  \<open>getSourceParts\<close> gives the type, the value and the optional details of a source.
\<close>

record 'w lock_env =
  l_satisfiesSemver :: "string \<Rightarrow> string \<Rightarrow> bool"
  l_loadManifest :: "string \<Rightarrow> err + manifest"
  l_join :: "string \<Rightarrow> string \<Rightarrow> string"
  l_relative :: "string \<Rightarrow> string \<Rightarrow> string"
  l_trailing :: "string \<Rightarrow> string"
  l_convertToToml :: "table \<Rightarrow> string"
  l_parseToml :: "string \<Rightarrow> err + table"
  l_getRegistrationId :: "string \<Rightarrow> string \<Rightarrow> string"
  l_getRegistrationSource :: "string \<Rightarrow> string \<Rightarrow> string option \<Rightarrow> string"
  l_getSourceParts :: "string \<Rightarrow> string \<times> string \<times> string option"
  l_toDependency :: "toml registration \<Rightarrow> err + dependency"
  l_version :: string
  l_pathExists :: "string \<Rightarrow> 'w \<Rightarrow> err + bool"
  l_readFile :: "string \<Rightarrow> 'w \<Rightarrow> err + string"
  l_writeFile :: "string \<Rightarrow> string \<Rightarrow> 'w \<Rightarrow> err + 'w"

text \<open>
  Modelled from the spec: \<open>getRegistration\<close> of \<open>resolve\<close>, which is not among the
  sources. In a dependency graph no two registrations share a name and the name of
  every dependency appears exactly once, so the registration of a dependency is the
  one that has the dependency's name.
\<close>

definition getRegistration ::
  "dependency registration list \<Rightarrow> dependency \<Rightarrow> dependency registration option" where
  "getRegistration packages dependency =
     find (\<lambda>registration. reg_name registration = dep_name dependency) packages"

section \<open>The lockfile: isLockfileValid\<close>

text \<open>
  \<open>byName\<close> of \<open>compareDependencies\<close> and of \<open>isLockfileValid\<close>: an object filled by
  \<open>forEach\<close>, a later entry replacing an earlier one of the same name.
\<close>

definition by_name :: "('a \<Rightarrow> string) \<Rightarrow> 'a list \<Rightarrow> (string \<rightharpoonup> 'a)" where
  "by_name name_of xs = fold (\<lambda>x m. m(name_of x \<mapsto> x)) xs Map.empty"

text \<open>
  \<open>satisfiesDependency(value, comparison)\<close>: \<open>value\<close> is the dependency of the current
  manifest, \<open>comparison\<close> the locked one. \<open>loadManifest\<close> can throw. Of two git
  dependencies the first discriminator that both have decides.
\<close>

fun same_ref :: "refspec \<Rightarrow> refspec \<Rightarrow> bool" where
  "same_ref (Rev a) (Rev b) = (a = b)"
| "same_ref (Tag a) (Tag b) = (a = b)"
| "same_ref (Branch a) (Branch b) = (a = b)"
| "same_ref r r' = False"

fun satisfiesDependency :: "'w lock_env \<Rightarrow> dependency \<Rightarrow> dependency \<Rightarrow> err + bool" where
  "satisfiesDependency env (Registry n rng r fs) (Registry n' version r' fs') =
     Inr (l_satisfiesSemver env version rng)"
| "satisfiesDependency env v (Registry n' version r' fs') = Inr False"
| "satisfiesDependency env (Path n path v) (Path n' path' version) =
     (if path \<noteq> path' then Inr False
      else and_then (l_loadManifest env path) (\<lambda>manifest. Inr (Some (mf_version manifest) = version)))"
| "satisfiesDependency env v (Path n' path' version) = Inr False"
| "satisfiesDependency env (Git n g ref v) (Git n' g' ref' v') = Inr (same_ref ref ref')"
| "satisfiesDependency env v (Git n' g' ref' v') = Inr False"

text \<open>The loop of \<open>compareDependencies\<close> over the locked dependencies.\<close>

fun satisfies_all ::
  "'w lock_env \<Rightarrow> (string \<rightharpoonup> dependency) \<Rightarrow> dependency list \<Rightarrow> err + bool" where
  "satisfies_all env byName [] = Inr True"
| "satisfies_all env byName (dependency # rest) =
     (case byName (dep_name dependency) of
        None \<Rightarrow> Inr False
      | Some currentValue \<Rightarrow>
          and_then (satisfiesDependency env currentValue dependency)
            (\<lambda>satisfied. if \<not> satisfied then Inr False else satisfies_all env byName rest))"

definition compareDependencies :: "'w lock_env \<Rightarrow> snapshot \<Rightarrow> snapshot \<Rightarrow> err + bool" where
  "compareDependencies env current locked =
     (if length (sn_dependencies current) \<noteq> length (sn_dependencies locked) then Inr False
      else satisfies_all env (by_name dep_name (sn_dependencies current)) (sn_dependencies locked))"

definition compareManifests :: "'w lock_env \<Rightarrow> snapshot \<Rightarrow> snapshot \<Rightarrow> err + bool" where
  "compareManifests env current locked =
     (if sn_name current \<noteq> sn_name locked then Inr False
      else if sn_version current \<noteq> sn_version locked then Inr False
      else compareDependencies env current locked)"

text \<open>The loop of \<open>isLockfileValid\<close> over the locked members.\<close>

fun members_match ::
  "'w lock_env \<Rightarrow> (string \<rightharpoonup> snapshot) \<Rightarrow> snapshot list \<Rightarrow> err + bool" where
  "members_match env byName [] = Inr True"
| "members_match env byName (member # rest) =
     (case byName (sn_name member) of
        None \<Rightarrow> Inr False
      | Some currentMember \<Rightarrow>
          and_then (compareManifests env currentMember member)
            (\<lambda>same. if \<not> same then Inr False else members_match env byName rest))"

text \<open>A property of a tree (\<open>undefined\<close> for what is not a table or has no such key),
  and the truthiness of a value that may be \<open>undefined\<close>.\<close>

definition field :: "toml \<Rightarrow> string \<Rightarrow> toml option" where
  "field v k = (case v of TTab kv \<Rightarrow> map_of kv k | _ \<Rightarrow> None)"

fun truthy_toml :: "toml option \<Rightarrow> bool" where
  "truthy_toml None = False"
| "truthy_toml (Some (TStr s)) = (s \<noteq> [])"
| "truthy_toml (Some (TInt i)) = (i \<noteq> 0)"
| "truthy_toml (Some (TBool b)) = b"
| "truthy_toml (Some (TArr xs)) = True"
| "truthy_toml (Some (TTab kv)) = True"

definition metadata_version :: "toml option \<Rightarrow> string option" where
  "metadata_version metadata =
     (case metadata of
        None \<Rightarrow> None
      | Some m \<Rightarrow> (case field m ''version'' of Some (TStr v) \<Rightarrow> Some v | _ \<Rightarrow> None))"

definition metadata_current :: "toml option \<Rightarrow> bool" where
  "metadata_current metadata =
     (case metadata of
        None \<Rightarrow> False
      | Some m \<Rightarrow> truthy_toml metadata \<and> field m ''version'' = Some (TStr LOCKFILE_VERSION))"

definition isLockfileValid :: "'w lock_env \<Rightarrow> lockfile \<Rightarrow> workspace \<Rightarrow> err + bool" where
  "isLockfileValid env lockfile workspace =
     (if \<not> metadata_current (lf_metadata lockfile) then Inr False
      else
        and_then (compareManifests env (ws_root workspace) (ws_root (lf_workspace lockfile)))
          (\<lambda>same.
             if \<not> same then Inr False
             else if length (ws_members (lf_workspace lockfile)) \<noteq> length (ws_members workspace)
               then Inr False
             else members_match env (by_name sn_name (ws_members workspace))
                    (ws_members (lf_workspace lockfile))))"







section \<open>The lockfile: toToml\<close>

text \<open>
  \<open>prepareSource\<close> and \<open>toDependencyId\<close>. \<open>ok(registration, ...)\<close> throws when
  \<open>getRegistration\<close> finds nothing.
\<close>

definition prepareSource :: "'w lock_env \<Rightarrow> string \<Rightarrow> string \<Rightarrow> string" where
  "prepareSource env source dir =
     (case l_getSourceParts env source of
        (type, v, details) \<Rightarrow>
          if type \<noteq> ''path'' then source
          else (let relativePath = l_trailing env (l_relative env dir v)
                in l_getRegistrationSource env type relativePath details))"

definition toDependencyId ::
  "'w lock_env \<Rightarrow> dependency \<Rightarrow> dependency registration list \<Rightarrow> string \<Rightarrow> err + string" where
  "toDependencyId env dependency packages dir =
     (case getRegistration packages dependency of
        None \<Rightarrow> Inl (AssertionError ''No package found for dependency'')
      | Some registration \<Rightarrow>
          (case l_getSourceParts env (reg_source registration) of
             (type, v, details) \<Rightarrow>
               (let source =
                  (if type = ''path''
                   then l_getRegistrationSource env type (l_trailing env (l_relative env dir v)) details
                   else reg_source registration)
                in Inr (dep_name dependency @ '' '' @ reg_version registration @ '' '' @ source))))"

definition prepareManifest ::
  "'w lock_env \<Rightarrow> snapshot \<Rightarrow> dependency registration list \<Rightarrow> string \<Rightarrow> err + toml" where
  "prepareManifest env manifest packages dir =
     and_then (map_err (\<lambda>dependency. toDependencyId env dependency packages dir)
                 (sn_dependencies manifest))
       (\<lambda>dependencies.
          Inr (TTab [(''name'', TStr (sn_name manifest)),
                     (''version'', TStr (sn_version manifest)),
                     (''dependencies'', TArr (map TStr dependencies))]))"

text \<open>
  The body of the \<open>map\<close> over the sorted packages; the dependencies are converted
  before the source is prepared.
\<close>

definition prepare_package ::
  "'w lock_env \<Rightarrow> dependency registration list \<Rightarrow> string \<Rightarrow> dependency registration \<Rightarrow>
   err + toml" where
  "prepare_package env packages dir registration =
     and_then (map_err (\<lambda>dependency. toDependencyId env dependency packages dir)
                 (reg_dependencies registration))
       (\<lambda>dependencies.
          Inr (TTab [(''name'', TStr (reg_name registration)),
                     (''version'', TStr (reg_version registration)),
                     (''source'', TStr (prepareSource env (reg_source registration) dir)),
                     (''dependencies'', TArr (map TStr dependencies))]))"

text \<open>
  \<open>toToml\<close> up to the call of \<open>convertToToml\<close>: the document, and the lockfile as the
  call leaves it. \<open>lockfile.packages.sort(...)\<close> sorts the array of the lockfile in
  place, by name and keeping the order of equal names; the root and the members are
  prepared before the sort, the packages after it, against the sorted array.
\<close>

definition toml_document :: "'w lock_env \<Rightarrow> lockfile \<Rightarrow> string \<Rightarrow> err + (table \<times> lockfile)" where
  "toml_document env lockfile dir =
     and_then (prepareManifest env (ws_root (lf_workspace lockfile)) (lf_packages lockfile) dir)
       (\<lambda>root.
     and_then (map_err (\<lambda>member. prepareManifest env member (lf_packages lockfile) dir)
                 (ws_members (lf_workspace lockfile)))
       (\<lambda>members.
     (let sorted = sort_key reg_name (lf_packages lockfile) in
     and_then (map_err (prepare_package env sorted dir) sorted)
       (\<lambda>packages.
          Inr ([(''metadata'', TTab [(''version'', TStr LOCKFILE_VERSION)]),
                (''root'', root),
                (''members'', TArr members),
                (''packages'', TArr packages)],
               lockfile\<lparr>lf_packages := sorted\<rparr>)))))"

definition lockfile_text :: "'w lock_env \<Rightarrow> table \<Rightarrow> string" where
  "lockfile_text env document =
     ''# Auto-generated by vba-blocks '' @ l_version env @ [newline] @ l_convertToToml env document"

definition toToml :: "'w lock_env \<Rightarrow> lockfile \<Rightarrow> string \<Rightarrow> err + (string \<times> lockfile)" where
  "toToml env lockfile dir =
     and_then (toml_document env lockfile dir)
       (\<lambda>(document, lockfile'). Inr (lockfile_text env document, lockfile'))"

section \<open>The lockfile: fromToml\<close>

text \<open>
  \<open>Array.isArray\<close>; \<open>(v || []).map(...)\<close>, which throws a TypeError when \<open>v\<close> is truthy
  and not an array; and the strings the typed lockfile holds. An id that is not a
  string has no \<open>split\<close>, and the call throws a TypeError. A name, a version or a
  source that is truthy and not a string passes the test of \<open>ok\<close>, and the code, whose
  types are erased at run time, goes on with the value as it is. The \<open>Lockfile\<close> of the
  model holds strings: there the model stops with a TypeError, so it follows the code
  on the documents whose names, versions and sources are strings or falsy. Wherever a
  theorem below gives the lockfile \<open>fromToml\<close> returns, the document is of that kind.
\<close>

fun is_array :: "toml option \<Rightarrow> bool" where
  "is_array (Some (TArr xs)) = True"
| "is_array v = False"

fun elements :: "toml option \<Rightarrow> toml list" where
  "elements (Some (TArr xs)) = xs"
| "elements v = []"

definition array_or_empty :: "toml option \<Rightarrow> err + toml list" where
  "array_or_empty v =
     (if \<not> truthy_toml v then Inr []
      else if is_array v then Inr (elements v)
      else Inl (TypeError ''map is not a function''))"

fun as_string :: "toml option \<Rightarrow> err + string" where
  "as_string (Some (TStr s)) = Inr s"
| "as_string v = Inl (TypeError ''not a string'')"

text \<open>\<open>id.split(' ', 1)\<close>: the part of the id before its first space.\<close>

definition first_word :: "string \<Rightarrow> string" where
  "first_word s = takeWhile (\<lambda>c. c \<noteq> CHR '' '') s"

definition getSource :: "'w lock_env \<Rightarrow> string \<Rightarrow> string \<Rightarrow> string" where
  "getSource env source dir =
     (case l_getSourceParts env source of
        (type, v, details) \<Rightarrow>
          if type \<noteq> ''path'' then source
          else (let absolutePath = l_join env dir v
                in l_getRegistrationSource env type absolutePath details))"

definition getDependency :: "(string \<rightharpoonup> dependency) \<Rightarrow> toml \<Rightarrow> err + dependency" where
  "getDependency byName id' =
     and_then (as_string (Some id'))
       (\<lambda>s. case byName (first_word s) of
               None \<Rightarrow>
                 Inl (AssertionError
                   (''Package not found in lockfile, '' @ [double_quote] @ s @ [double_quote]))
             | Some dependency \<Rightarrow> Inr dependency)"

definition toManifest :: "(string \<rightharpoonup> dependency) \<Rightarrow> toml \<Rightarrow> err + snapshot" where
  "toManifest byName v =
     (let name = field v ''name''; version = field v ''version'' in
      and_then (ok (truthy_toml name \<and> truthy_toml version \<and> is_array (field v ''dependencies''))
                  ''Invalid manifest in lockfile'')
        (\<lambda>u.
      and_then (as_string name) (\<lambda>name.
      and_then (as_string version) (\<lambda>version.
      and_then (map_err (getDependency byName) (elements (field v ''dependencies'')))
        (\<lambda>dependencies.
           Inr \<lparr>sn_name = name, sn_version = version, sn_dependencies = dependencies\<rparr>)))))"

text \<open>
  The first pass over the packages: the registration, whose dependencies are still
  the ids of the file, and the dependency \<open>toDependency\<close> makes of it, which
  \<open>byName.set\<close> stores under the name.
\<close>

definition load_package ::
  "'w lock_env \<Rightarrow> string \<Rightarrow> toml \<Rightarrow> err + (toml registration \<times> dependency)" where
  "load_package env dir v =
     (let name = field v ''name''; version = field v ''version''; source = field v ''source'';
          dependencies = field v ''dependencies'' in
      and_then (ok (truthy_toml name \<and> truthy_toml version \<and> truthy_toml source \<and>
                    is_array dependencies) ''Invalid package in lockfile'')
        (\<lambda>u.
      and_then (as_string name) (\<lambda>name.
      and_then (as_string version) (\<lambda>version.
      and_then (as_string source) (\<lambda>source.
        (let registration =
           \<lparr>reg_id = l_getRegistrationId env name version, reg_name = name,
            reg_version = version, reg_source = getSource env source dir,
            reg_dependencies = elements dependencies\<rparr>
         in and_then (l_toDependency env registration)
              (\<lambda>dependency. Inr (registration, dependency))))))))"

definition loaded_by_name ::
  "(toml registration \<times> dependency) list \<Rightarrow> (string \<rightharpoonup> dependency)" where
  "loaded_by_name loaded = fold (\<lambda>(registration, dependency) m. m(reg_name registration \<mapsto> dependency))
     loaded Map.empty"

text \<open>The second pass: the ids of a registration become dependencies.\<close>

definition hydrate ::
  "(string \<rightharpoonup> dependency) \<Rightarrow> toml registration \<Rightarrow> err + dependency registration" where
  "hydrate byName registration =
     and_then (map_err (getDependency byName) (reg_dependencies registration))
       (\<lambda>dependencies.
          Inr \<lparr>reg_id = reg_id registration, reg_name = reg_name registration,
               reg_version = reg_version registration, reg_source = reg_source registration,
               reg_dependencies = dependencies\<rparr>)"

text \<open>\<open>fromToml\<close> after \<open>parseToml\<close>, on the parsed document.\<close>

definition from_document :: "'w lock_env \<Rightarrow> table \<Rightarrow> string \<Rightarrow> err + lockfile" where
  "from_document env parsed dir =
     and_then (ok (map_of parsed ''root'' \<noteq> None) ''vba-block.lock is missing [root] field'')
       (\<lambda>u.
     (let metadata = map_of parsed ''metadata'' in
     and_then (array_or_empty (map_of parsed ''packages'')) (\<lambda>entries.
     and_then (map_err (load_package env dir) entries) (\<lambda>loaded.
     (let byName = loaded_by_name loaded in
     and_then (map_err (hydrate byName) (map fst loaded)) (\<lambda>packages.
     and_then (toManifest byName (case map_of parsed ''root'' of Some v \<Rightarrow> v | None \<Rightarrow> TTab []))
       (\<lambda>root.
     and_then (array_or_empty (map_of parsed ''members'')) (\<lambda>entries'.
     and_then (map_err (toManifest byName) entries') (\<lambda>members.
       Inr \<lparr>lf_metadata = metadata,
            lf_workspace = \<lparr>ws_root = root, ws_members = members\<rparr>,
            lf_packages = packages\<rparr>)))))))))"

definition fromToml :: "'w lock_env \<Rightarrow> string \<Rightarrow> string \<Rightarrow> err + lockfile" where
  "fromToml env toml dir =
     and_then (l_parseToml env toml) (\<lambda>parsed. from_document env parsed dir)"

section \<open>The lockfile: readLockfile and writeLockfile\<close>

text \<open>
  The body of the \<open>try\<close> of \<open>readLockfile\<close>, and \<open>readLockfile\<close>, whose \<open>catch\<close> turns
  every throw of the body into \<open>null\<close>. The result type keeps a place for a throw of
  \<open>readLockfile\<close> itself.
\<close>

definition readLockfile_try :: "'w lock_env \<Rightarrow> string \<Rightarrow> 'w \<Rightarrow> err + lockfile option" where
  "readLockfile_try env dir w =
     (let file = l_join env dir ''vba-block.lock'' in
      and_then (l_pathExists env file w) (\<lambda>exists.
        if \<not> exists then Inr None
        else and_then (l_readFile env file w) (\<lambda>toml.
             and_then (fromToml env toml dir) (\<lambda>lockfile. Inr (Some lockfile)))))"

definition readLockfile :: "'w lock_env \<Rightarrow> string \<Rightarrow> 'w \<Rightarrow> err + lockfile option" where
  "readLockfile env dir w =
     (case readLockfile_try env dir w of
        Inl e \<Rightarrow> Inr None
      | Inr result \<Rightarrow> Inr result)"

text \<open>
  \<open>writeLockfile\<close>: the file system after the write, and the lockfile as \<open>toToml\<close> left
  it. Every throw of \<open>toToml\<close> or \<open>writeFile\<close> becomes \<open>lockfile-write-failed\<close>.
\<close>

definition writeLockfile ::
  "'w lock_env \<Rightarrow> string \<Rightarrow> lockfile \<Rightarrow> 'w \<Rightarrow> err + ('w \<times> lockfile)" where
  "writeLockfile env dir lockfile w =
     (let file = l_join env dir ''vba-block.lock'' in
      case and_then (toToml env lockfile dir)
             (\<lambda>(toml, lockfile'). and_then (l_writeFile env file toml w) (\<lambda>w'. Inr (w', lockfile')))
      of Inl e \<Rightarrow> Inl (CliError ''lockfile-write-failed'')
       | Inr result \<Rightarrow> Inr result)"


text \<open>
  A concrete environment for evaluation. The file system is a list of paths with
  their contents; the parser is replaced by its outcome \<open>parsed\<close>; \<open>^1.0.0\<close> is satisfied
  by \<open>1.0.0\<close> and \<open>1.1.0\<close>, any other range by itself only; the manifest at
  \<open>/app/lib\<close> has version \<open>0.3.0\<close>.
\<close>

definition lock_env0 :: "err + table \<Rightarrow> (string \<times> string) list lock_env" where
  "lock_env0 parsed =
     \<lparr>l_satisfiesSemver =
        (\<lambda>version rng. rng = version \<or> (rng = ''^1.0.0'' \<and> (version = ''1.0.0'' \<or> version = ''1.1.0''))),
      l_loadManifest =
        (\<lambda>path. if path = ''/app/lib''
           then Inr \<lparr>mf_name = ''lib'', mf_version = ''0.3.0'', mf_src = [], mf_target = None\<rparr>
           else Inl (CliError ''manifest-not-found'')),
      l_join = join_slash,
      l_relative = (\<lambda>from to. drop (length from + 1) to),
      l_trailing = (\<lambda>path. path @ ''/''),
      l_convertToToml = (\<lambda>document. ''[metadata]''),
      l_parseToml = (\<lambda>text. parsed),
      l_getRegistrationId = (\<lambda>name version. name @ ''@'' @ version),
      l_getRegistrationSource =
        (\<lambda>type v details. type @ ''+'' @ v @ (case details of None \<Rightarrow> [] | Some d \<Rightarrow> ''#'' @ d)),
      l_getSourceParts =
        (\<lambda>source. (takeWhile (\<lambda>c. c \<noteq> CHR ''+'') source,
                    drop 1 (dropWhile (\<lambda>c. c \<noteq> CHR ''+'') source), None)),
      l_toDependency =
        (\<lambda>registration. Inr (Registry (reg_name registration) (reg_version registration) ''default'' [])),
      l_version = ''0.1.0'',
      l_pathExists = (\<lambda>path w. Inr (map_of w path \<noteq> None)),
      l_readFile =
        (\<lambda>path w. case map_of w path of None \<Rightarrow> Inl (Thrown ''ENOENT'') | Some text \<Rightarrow> Inr text),
      l_writeFile = (\<lambda>path text w. Inr ((path, text) # w))\<rparr>"

text \<open>
  A workspace whose root depends on \<open>foo ^1.0.0\<close> from the registry, on the path
  \<open>/app/lib\<close> and on a git tag, with one member; and a lockfile of it, which locks
  \<open>foo\<close> at \<open>1.1.0\<close> and \<open>lib\<close> at \<open>0.3.0\<close>, its packages in the order of their names.
\<close>

definition member0 :: snapshot where
  "member0 = \<lparr>sn_name = ''tool'', sn_version = ''0.1.0'', sn_dependencies = []\<rparr>"

definition workspace0 :: workspace where
  "workspace0 =
     \<lparr>ws_root = \<lparr>sn_name = ''app'', sn_version = ''1.0.0'',
          sn_dependencies =
            [Registry ''foo'' ''^1.0.0'' ''default'' [],
             Path ''lib'' ''/app/lib'' None,
             Git ''gen'' ''https://example.com/gen.git'' (Tag ''v2'') None]\<rparr>,
      ws_members = [member0]\<rparr>"

definition locked_root0 :: snapshot where
  "locked_root0 =
     \<lparr>sn_name = ''app'', sn_version = ''1.0.0'',
      sn_dependencies =
        [Registry ''foo'' ''1.1.0'' ''default'' [],
         Path ''lib'' ''/app/lib'' (Some ''0.3.0''),
         Git ''gen'' ''https://example.com/gen.git'' (Tag ''v2'') None]\<rparr>"

definition packages0 :: "dependency registration list" where
  "packages0 =
     [\<lparr>reg_id = ''foo@1.1.0'', reg_name = ''foo'', reg_version = ''1.1.0'',
       reg_source = ''registry+default'', reg_dependencies = []\<rparr>,
      \<lparr>reg_id = ''gen@2.0.0'', reg_name = ''gen'', reg_version = ''2.0.0'',
       reg_source = ''git+https://example.com/gen.git'',
       reg_dependencies = [Registry ''foo'' ''^1.0.0'' ''default'' []]\<rparr>,
      \<lparr>reg_id = ''lib@0.3.0'', reg_name = ''lib'', reg_version = ''0.3.0'',
       reg_source = ''path+/app/lib'', reg_dependencies = []\<rparr>]"

definition lockfile0 :: "snapshot list \<Rightarrow> lockfile" where
  "lockfile0 members =
     \<lparr>lf_metadata = Some (TTab [(''version'', TStr ''1'')]),
      lf_workspace = \<lparr>ws_root = locked_root0, ws_members = members\<rparr>,
      lf_packages = packages0\<rparr>"

text \<open>The document \<open>toToml\<close> makes of \<open>lockfile0 [member0]\<close> in \<open>/app\<close>.\<close>

definition document0 :: table where
  "document0 =
     [(''metadata'', TTab [(''version'', TStr ''1'')]),
      (''root'',
       TTab [(''name'', TStr ''app''), (''version'', TStr ''1.0.0''),
             (''dependencies'',
              TArr [TStr ''foo 1.1.0 registry+default'', TStr ''lib 0.3.0 path+lib/'',
                    TStr ''gen 2.0.0 git+https://example.com/gen.git''])]),
      (''members'',
       TArr [TTab [(''name'', TStr ''tool''), (''version'', TStr ''0.1.0''),
                   (''dependencies'', TArr [])]]),
      (''packages'',
       TArr [TTab [(''name'', TStr ''foo''), (''version'', TStr ''1.1.0''),
                   (''source'', TStr ''registry+default''), (''dependencies'', TArr [])],
             TTab [(''name'', TStr ''gen''), (''version'', TStr ''2.0.0''),
                   (''source'', TStr ''git+https://example.com/gen.git''),
                   (''dependencies'', TArr [TStr ''foo 1.1.0 registry+default''])],
             TTab [(''name'', TStr ''lib''), (''version'', TStr ''0.3.0''),
                   (''source'', TStr ''path+lib/''), (''dependencies'', TArr [])]])]"

section \<open>The lockfile: the round trip\<close>





















definition reread0 :: "toml \<Rightarrow> lockfile" where
  "reread0 metadata =
     \<lparr>lf_metadata = Some metadata,
      lf_workspace =
        \<lparr>ws_root = \<lparr>sn_name = ''app'', sn_version = ''1.0.0'',
           sn_dependencies =
             [Registry ''foo'' ''1.1.0'' ''default'' [],
              Registry ''lib'' ''0.3.0'' ''default'' [],
              Registry ''gen'' ''2.0.0'' ''default'' []]\<rparr>,
         ws_members = [member0]\<rparr>,
      lf_packages =
        [\<lparr>reg_id = ''foo@1.1.0'', reg_name = ''foo'', reg_version = ''1.1.0'',
          reg_source = ''registry+default'', reg_dependencies = []\<rparr>,
         \<lparr>reg_id = ''gen@2.0.0'', reg_name = ''gen'', reg_version = ''2.0.0'',
          reg_source = ''git+https://example.com/gen.git'',
          reg_dependencies = [Registry ''foo'' ''1.1.0'' ''default'' []]\<rparr>,
         \<lparr>reg_id = ''lib@0.3.0'', reg_name = ''lib'', reg_version = ''0.3.0'',
          reg_source = ''path+/app/lib/'', reg_dependencies = []\<rparr>]\<rparr>"

section \<open>The message of resolve-failed and the path backend\<close>

text \<open>
  C4. The claim: the rendered \<open>resolve-failed\<close> message includes the conflict set passed
  as \<open>details\<close>, and for two direct dependencies with incompatible ranges of \<open>bar\<close> it
  mentions \<open>bar\<close>. The renderer in the source takes no parameter: whatever \<open>details\<close>
  holds, the message is the same fixed text, and that text does not contain \<open>bar\<close>.
\<close>

theorem resolve_failed_ignores_details:
  "resolve_failed \<lparr>rf_details = Some d\<rparr> = resolve_failed \<lparr>rf_details = None\<rparr> \<and>
   includes_str ''bar'' (resolve_failed \<lparr>rf_details = Some ''bar ^1.0.0, bar ^2.0.0''\<rparr>) = False"
  by (simp add: resolve_failed_def newline_def)

text \<open>
  C5. The claim: for a path dependency whose path holds a manifest, \<open>resolve\<close> returns a
  one-element list with the version read from that manifest, and \<open>fetch\<close> returns the
  path. In the source both bodies are a TODO comment followed by a constant: \<open>resolve\<close>
  returns the empty list for every dependency and \<open>fetch\<close> the empty string for every
  registration.
\<close>

theorem path_backend_unimplemented:
  "path_resolve config (Path ''lib'' ''/app/lib'' None) = Inr [] \<and>
   path_fetch config \<lparr>reg_id = ''lib@1.0.0'', reg_name = ''lib'', reg_version = ''1.0.0'',
      reg_source = ''path+/app/lib'', reg_dependencies = []\<rparr> = Inr []"
  by (simp add: path_resolve_def path_fetch_def)

section \<open>getStaging\<close>

text \<open>
  C7. The claim: on every platform \<open>getStaging(c)\<close> returns \<open>join(c, "staging")\<close>. On a
  platform other than \<open>win32\<close> the source returns the \<open>.vba-blocks\<close> directory of the
  Office group container under the home directory, whatever \<open>c\<close> is: with the home
  directory \<open>/Users/u\<close> and the cache \<open>/cache\<close> the result is not \<open>/cache/staging\<close>.
\<close>

theorem getStaging_darwin_counterexample:
  "getStaging join_slash (\<lambda>p fs. Inr fs) ''darwin'' ''/Users/u'' ''/cache'' () =
     Inr (''/Users/u/Library/Group Containers/UBF8T346G9.Office/.vba-blocks'', ()) \<and>
   ''/Users/u/Library/Group Containers/UBF8T346G9.Office/.vba-blocks'' \<noteq> join_slash ''/cache'' ''staging''"
  by (simp add: getStaging_def join_slash_def findMacOfficeContainer_def and_then_def)

text \<open>
  C7, as amended: on \<open>win32\<close>, \<open>getStaging(c)\<close> ensures that \<open>join(c, "staging")\<close> exists
  and returns it; on every other platform it ensures and returns
  \<open>join(join(homedir(), "Library/Group Containers/UBF8T346G9.Office"), ".vba-blocks")\<close>,
  whatever \<open>c\<close> is; when \<open>ensureDirSync\<close> throws on that directory, \<open>getStaging\<close> throws
  the same error, whatever \<open>ensureDirSync\<close> does on other directories.
\<close>

theorem getStaging_by_platform:
  "(platform = ''win32'' \<and> ensureDirSync (join cache ''staging'') fs = Inr fs' \<longrightarrow>
      getStaging join ensureDirSync platform homedir cache fs = Inr (join cache ''staging'', fs'))
   \<and>
   (platform \<noteq> ''win32'' \<and>
    ensureDirSync (join (join homedir ''Library/Group Containers/UBF8T346G9.Office'') ''.vba-blocks'') fs
      = Inr fs' \<longrightarrow>
      getStaging join ensureDirSync platform homedir cache fs =
        Inr (join (join homedir ''Library/Group Containers/UBF8T346G9.Office'') ''.vba-blocks'', fs'))
   \<and>
   (platform = ''win32'' \<and> ensureDirSync (join cache ''staging'') fs = Inl e \<longrightarrow>
      getStaging join ensureDirSync platform homedir cache fs = Inl e)
   \<and>
   (platform \<noteq> ''win32'' \<and>
    ensureDirSync (join (join homedir ''Library/Group Containers/UBF8T346G9.Office'') ''.vba-blocks'') fs
      = Inl e \<longrightarrow>
      getStaging join ensureDirSync platform homedir cache fs = Inl e)"
  by (simp add: getStaging_def findMacOfficeContainer_def and_then_def)

theorem getStaging_by_platform_witness:
  "getStaging join_slash (\<lambda>p fs. Inr (p # fs)) ''win32'' ''C:/Users/u'' ''C:/cache'' [] =
     Inr (''C:/cache/staging'', [''C:/cache/staging''])
   \<and> getStaging join_slash (\<lambda>p fs. Inr (p # fs)) ''linux'' ''/home/u'' ''/cache'' [] =
     Inr (''/home/u/Library/Group Containers/UBF8T346G9.Office/.vba-blocks'',
          [''/home/u/Library/Group Containers/UBF8T346G9.Office/.vba-blocks''])
   \<and> getStaging join_slash
         (\<lambda>p fs. if p = ''C:/cache/staging'' then Inl (Thrown ''EACCES'') else Inr (p # fs))
         ''win32'' ''C:/Users/u'' ''C:/cache'' [] = Inl (Thrown ''EACCES'')
   \<and> getStaging join_slash
         (\<lambda>p fs. if p = ''/cache/staging'' then Inr (p # fs) else Inl (Thrown ''EROFS''))
         ''darwin'' ''/Users/u'' ''/cache'' [] = Inl (Thrown ''EROFS'')"
  using getStaging_by_platform [of "''win32''" "\<lambda>p fs. Inr (p # fs)" join_slash "''C:/cache''" "[]"
      "[''C:/cache/staging'']" "''C:/Users/u''" "Thrown ''X''"]
    getStaging_by_platform [of "''linux''" "\<lambda>p fs. Inr (p # fs)" join_slash "''/cache''" "[]"
      "[''/home/u/Library/Group Containers/UBF8T346G9.Office/.vba-blocks'']" "''/home/u''" "Thrown ''X''"]
    getStaging_by_platform [of "''win32''"
      "\<lambda>p fs. if p = ''C:/cache/staging'' then Inl (Thrown ''EACCES'') else Inr (p # fs)"
      join_slash "''C:/cache''" "[]" "[]" "''C:/Users/u''" "Thrown ''EACCES''"]
    getStaging_by_platform [of "''darwin''"
      "\<lambda>p fs. if p = ''/cache/staging'' then Inr (p # fs) else Inl (Thrown ''EROFS'')"
      join_slash "''/cache''" "[]" "[]" "''/Users/u''" "Thrown ''EROFS''"]
  by (simp add: join_slash_def)

section \<open>updateManifest\<close>










lemma add_loop_result:
  "add_loop join addSource cs (project, changes) = (project', changes') \<Longrightarrow>
   mf_src (pr_manifest project') =
     mf_src (pr_manifest project) @ map (new_source join (p_dir (pr_paths project))) cs"
proof (induction cs arbitrary: project changes)
  case Nil
  then show ?case by simp
next
  case (Cons c cs)
  then show ?case
    by (simp add: Let_def set_src_def new_source_def)
qed

lemma remove_loop_result:
  "remove_loop removeSource cs (project, changes) = (project', changes') \<Longrightarrow>
   mf_src (pr_manifest project') = splice_all cs (mf_src (pr_manifest project))"
proof (induction cs arbitrary: project changes)
  case Nil
  then show ?case by simp
next
  case (Cons c cs)
  then show ?case
    by (simp add: Let_def set_src_def)
qed

lemma src_after_eq:
  "src_after join project cs =
     splice_all (cs_removed cs)
       (mf_src (pr_manifest project) @ map (new_source join (p_dir (pr_paths project))) (cs_added cs))"
proof -
  obtain p1 c1 where a: "add_loop join (\<lambda>m s. ()) (cs_added cs) (project, []) = (p1, c1)"
    by (cases "add_loop join (\<lambda>m s. ()) (cs_added cs) (project, [])")
  obtain p2 c2 where r: "remove_loop (\<lambda>m n. ()) (cs_removed cs) (p1, c1) = (p2, c2)"
    by (cases "remove_loop (\<lambda>m n. ()) (cs_removed cs) (p1, c1)")
  show ?thesis
    using add_loop_result[OF a] remove_loop_result[OF r]
    by (simp add: src_after_def updateManifest_def a r)
qed


text \<open>
  Nor is the precondition sufficient when a name occurs twice: of two entries named
  \<open>A\<close> the update removes the first only, and of two removed components named \<open>A\<close> the
  second deletes the last entry, \<open>B\<close>.
\<close>

lemma updateManifest_repeated_names:
  "src_after join_slash (set_src project0 [source0 ''A'', source0 ''A'']) (removal0 [''A'']) =
     [source0 ''A''] \<and>
   src_after join_slash (set_src project0 [source0 ''A'', source0 ''B'']) (removal0 [''A'', ''A'']) = []"
  by (simp add: src_after_eq removal0_def component0_def source0_def set_src_def project0_def
      splice1_def)



section \<open>exportProject\<close>















section \<open>isLockfileValid\<close>










lemma metadata_current_iff:
  "metadata_current m \<longleftrightarrow> metadata_version m = Some LOCKFILE_VERSION"
  by (auto simp: metadata_current_def metadata_version_def field_def
      split: option.splits toml.splits)

lemma lock_env0_fields:
  "l_satisfiesSemver (lock_env0 parsed) =
     (\<lambda>version rng. rng = version \<or> (rng = ''^1.0.0'' \<and> (version = ''1.0.0'' \<or> version = ''1.1.0'')))"
  "l_loadManifest (lock_env0 parsed) =
     (\<lambda>path. if path = ''/app/lib''
        then Inr \<lparr>mf_name = ''lib'', mf_version = ''0.3.0'', mf_src = [], mf_target = None\<rparr>
        else Inl (CliError ''manifest-not-found''))"
  "l_join (lock_env0 parsed) = join_slash"
  "l_relative (lock_env0 parsed) = (\<lambda>from to. drop (length from + 1) to)"
  "l_trailing (lock_env0 parsed) = (\<lambda>path. path @ ''/'')"
  "l_convertToToml (lock_env0 parsed) = (\<lambda>document. ''[metadata]'')"
  "l_parseToml (lock_env0 parsed) = (\<lambda>text. parsed)"
  "l_getRegistrationId (lock_env0 parsed) = (\<lambda>name version. name @ ''@'' @ version)"
  "l_getRegistrationSource (lock_env0 parsed) =
     (\<lambda>type v details. type @ ''+'' @ v @ (case details of None \<Rightarrow> [] | Some d \<Rightarrow> ''#'' @ d))"
  "l_getSourceParts (lock_env0 parsed) =
     (\<lambda>source. (takeWhile (\<lambda>c. c \<noteq> CHR ''+'') source,
                 drop 1 (dropWhile (\<lambda>c. c \<noteq> CHR ''+'') source), None))"
  "l_toDependency (lock_env0 parsed) =
     (\<lambda>registration. Inr (Registry (reg_name registration) (reg_version registration) ''default'' []))"
  "l_version (lock_env0 parsed) = ''0.1.0''"
  "l_pathExists (lock_env0 parsed) = (\<lambda>path w. Inr (map_of w path \<noteq> None))"
  "l_readFile (lock_env0 parsed) =
     (\<lambda>path w. case map_of w path of None \<Rightarrow> Inl (Thrown ''ENOENT'') | Some text \<Rightarrow> Inr text)"
  "l_writeFile (lock_env0 parsed) = (\<lambda>path text w. Inr ((path, text) # w))"
  by (simp_all add: lock_env0_def)

lemma root0_matches:
  "compareManifests (lock_env0 parsed) (ws_root workspace0) locked_root0 = Inr True"
  by (simp add: compareManifests_def compareDependencies_def workspace0_def locked_root0_def
      by_name_def and_then_def lock_env0_fields)



lemma isLockfileValid0:
  "isLockfileValid (lock_env0 parsed) (lockfile0 [member0]) workspace0 = Inr True"
proof -
  have "compareManifests (lock_env0 parsed) member0 member0 = Inr True"
    by (simp add: compareManifests_def compareDependencies_def member0_def by_name_def)
  then show ?thesis
    by (simp add: isLockfileValid_def lockfile0_def metadata_current_def field_def
        LOCKFILE_VERSION_def root0_matches and_then_def)
      (simp add: workspace0_def by_name_def and_then_def member0_def)
qed


section \<open>readLockfile and writeLockfile\<close>







lemma toml_document0:
  "toml_document (lock_env0 parsed) (lockfile0 [member0]) ''/app'' = Inr (document0, lockfile0 [member0])"
  by code_simp

lemma from_document0:
  "from_document (lock_env0 parsed) document0 ''/app'' = Inr (reread0 (TTab [(''version'', TStr ''1'')]))"
  by code_simp

lemma toToml0:
  "toToml (lock_env0 parsed) (lockfile0 [member0]) ''/app'' =
     Inr (''# Auto-generated by vba-blocks 0.1.0'' @ [newline] @ ''[metadata]'', lockfile0 [member0])"
  by (simp add: toToml_def toml_document0 and_then_def lockfile_text_def lock_env0_fields)

text \<open>
  C6. The claim: \<open>readLockfile\<close> and \<open>writeLockfile\<close> work on \<open>dir/project.lock\<close>. The
  source names the file \<open>vba-block.lock\<close>: with only \<open>/app/project.lock\<close> present,
  \<open>readLockfile\<close> returns \<open>null\<close>; and \<open>writeLockfile\<close> on an empty file system leaves
  one file, \<open>/app/vba-block.lock\<close>.
\<close>

theorem lockfile_name_counterexample:
  "readLockfile (lock_env0 (Inr document0)) ''/app'' [(''/app/project.lock'', ''[metadata]'')] = Inr None \<and>
   writeLockfile (lock_env0 (Inr document0)) ''/app'' (lockfile0 [member0]) [] =
     Inr ([(''/app/vba-block.lock'', ''# Auto-generated by vba-blocks 0.1.0'' @ [newline] @ ''[metadata]'')],
          lockfile0 [member0])"
  by (simp add: readLockfile_def readLockfile_try_def writeLockfile_def toToml0 and_then_def
      lock_env0_fields join_slash_def)

text \<open>
  C6, as amended: when \<open>join(dir, "vba-block.lock")\<close> exists and is read, and \<open>fromToml\<close>
  returns a lockfile for its contents, \<open>readLockfile(dir)\<close> returns that lockfile; when
  that path does not exist it returns \<open>null\<close>; \<open>readLockfile(dir)\<close> depends on the file
  system only through \<open>pathExists\<close> and \<open>readFile\<close> at that path. \<open>writeLockfile\<close> writes
  the text of \<open>toToml\<close> to that path, a failure of \<open>writeFile\<close> or of \<open>toToml\<close> becoming
  \<open>lockfile-write-failed\<close>. The document \<open>toToml\<close> builds has \<open>metadata.version = "1"\<close>,
  and a lockfile that \<open>isLockfileValid\<close> accepts has \<open>metadata.version = "1"\<close>.
\<close>

theorem lockfile_name_and_version:
  "(l_pathExists env (l_join env dir ''vba-block.lock'') w = Inr True \<and>
    l_readFile env (l_join env dir ''vba-block.lock'') w = Inr contents \<and>
    fromToml env contents dir = Inr locked \<longrightarrow>
    readLockfile env dir w = Inr (Some locked)) \<and>
   (l_pathExists env (l_join env dir ''vba-block.lock'') w = Inr False \<longrightarrow>
    readLockfile env dir w = Inr None) \<and>
   (l_pathExists env (l_join env dir ''vba-block.lock'') w =
      l_pathExists env (l_join env dir ''vba-block.lock'') w' \<and>
    l_readFile env (l_join env dir ''vba-block.lock'') w =
      l_readFile env (l_join env dir ''vba-block.lock'') w' \<longrightarrow>
    readLockfile env dir w = readLockfile env dir w') \<and>
   (toToml env lockfile dir = Inr (toml, lockfile') \<longrightarrow>
    writeLockfile env dir lockfile w =
      (case l_writeFile env (l_join env dir ''vba-block.lock'') toml w of
         Inl e \<Rightarrow> Inl (CliError ''lockfile-write-failed'')
       | Inr written \<Rightarrow> Inr (written, lockfile'))) \<and>
   ((\<exists>e. toToml env lockfile dir = Inl e) \<longrightarrow>
    writeLockfile env dir lockfile w = Inl (CliError ''lockfile-write-failed'')) \<and>
   (toml_document env lockfile dir = Inr (document, lockfile') \<longrightarrow>
    map_of document ''metadata'' = Some (TTab [(''version'', TStr ''1'')])) \<and>
   (isLockfileValid env lockfile workspace = Inr True \<longrightarrow>
    metadata_version (lf_metadata lockfile) = Some ''1'')"
proof (intro conjI impI)
  assume "l_pathExists env (l_join env dir ''vba-block.lock'') w = Inr True \<and>
    l_readFile env (l_join env dir ''vba-block.lock'') w = Inr contents \<and>
    fromToml env contents dir = Inr locked"
  then show "readLockfile env dir w = Inr (Some locked)"
    by (simp add: readLockfile_def readLockfile_try_def and_then_def Let_def)
next
  assume "l_pathExists env (l_join env dir ''vba-block.lock'') w = Inr False"
  then show "readLockfile env dir w = Inr None"
    by (simp add: readLockfile_def readLockfile_try_def and_then_def Let_def)
next
  assume "l_pathExists env (l_join env dir ''vba-block.lock'') w =
      l_pathExists env (l_join env dir ''vba-block.lock'') w' \<and>
    l_readFile env (l_join env dir ''vba-block.lock'') w =
      l_readFile env (l_join env dir ''vba-block.lock'') w'"
  then show "readLockfile env dir w = readLockfile env dir w'"
    by (simp add: readLockfile_def readLockfile_try_def Let_def cong: if_cong)
next
  assume "toToml env lockfile dir = Inr (toml, lockfile')"
  then show "writeLockfile env dir lockfile w =
      (case l_writeFile env (l_join env dir ''vba-block.lock'') toml w of
         Inl e \<Rightarrow> Inl (CliError ''lockfile-write-failed'')
       | Inr written \<Rightarrow> Inr (written, lockfile'))"
    by (simp add: writeLockfile_def and_then_def Let_def split: sum.splits)
next
  assume "\<exists>e. toToml env lockfile dir = Inl e"
  then show "writeLockfile env dir lockfile w = Inl (CliError ''lockfile-write-failed'')"
    by (auto simp: writeLockfile_def and_then_def Let_def)
next
  assume "toml_document env lockfile dir = Inr (document, lockfile')"
  then show "map_of document ''metadata'' = Some (TTab [(''version'', TStr ''1'')])"
    by (auto simp: toml_document_def and_then_def Let_def LOCKFILE_VERSION_def split: sum.splits)
next
  assume "isLockfileValid env lockfile workspace = Inr True"
  then have "metadata_current (lf_metadata lockfile)"
    by (simp add: isLockfileValid_def split: if_splits)
  then show "metadata_version (lf_metadata lockfile) = Some ''1''"
    by (simp add: metadata_current_iff LOCKFILE_VERSION_def)
qed

theorem lockfile_name_and_version_witness:
  "readLockfile (lock_env0 (Inr document0)) ''/app''
      [(''/app/project.lock'', ''[root]''), (''/app/vba-block.lock'', ''[metadata]'')] =
    Inr (Some (reread0 (TTab [(''version'', TStr ''1'')]))) \<and>
   readLockfile (lock_env0 (Inr document0)) ''/app'' [(''/app/project.lock'', ''[root]'')] = Inr None \<and>
   readLockfile (lock_env0 (Inr document0)) ''/app''
      [(''/app/project.lock'', ''[root]''), (''/app/vba-block.lock'', ''[metadata]'')] =
    readLockfile (lock_env0 (Inr document0)) ''/app'' [(''/app/vba-block.lock'', ''[metadata]'')] \<and>
   writeLockfile (lock_env0 (Inr document0)) ''/app'' (lockfile0 [member0])
       [(''/app/project.lock'', ''[root]''), (''/app/vba-block.lock'', ''[metadata]'')] =
     Inr ([(''/app/vba-block.lock'', ''# Auto-generated by vba-blocks 0.1.0'' @ [newline] @ ''[metadata]''),
           (''/app/project.lock'', ''[root]''), (''/app/vba-block.lock'', ''[metadata]'')],
          lockfile0 [member0]) \<and>
   map_of document0 ''metadata'' = Some (TTab [(''version'', TStr ''1'')]) \<and>
   isLockfileValid (lock_env0 (Inr document0)) (lockfile0 [member0]) workspace0 = Inr True \<and>
   metadata_version (lf_metadata (lockfile0 [member0])) = Some ''1''"
proof -
  have read: "fromToml (lock_env0 (Inr document0)) ''[metadata]'' ''/app'' =
      Inr (reread0 (TTab [(''version'', TStr ''1'')]))"
    by (simp add: fromToml_def lock_env0_fields and_then_def from_document0)
  note inst = lockfile_name_and_version [where env = "lock_env0 (Inr document0)" and dir = "''/app''"
      and w = "[(''/app/project.lock'', ''[root]''), (''/app/vba-block.lock'', ''[metadata]'')]"
      and w' = "[(''/app/vba-block.lock'', ''[metadata]'')]"
      and contents = "''[metadata]''" and locked = "reread0 (TTab [(''version'', TStr ''1'')])"
      and lockfile = "lockfile0 [member0]" and lockfile' = "lockfile0 [member0]"
      and toml = "''# Auto-generated by vba-blocks 0.1.0'' @ [newline] @ ''[metadata]''"
      and document = document0 and workspace = workspace0]
  have found: "readLockfile (lock_env0 (Inr document0)) ''/app''
      [(''/app/project.lock'', ''[root]''), (''/app/vba-block.lock'', ''[metadata]'')] =
    Inr (Some (reread0 (TTab [(''version'', TStr ''1'')])))"
    using inst read by (simp add: lock_env0_fields join_slash_def)
  have absent: "readLockfile (lock_env0 (Inr document0)) ''/app'' [(''/app/project.lock'', ''[root]'')] =
      Inr None"
    using lockfile_name_and_version [where env = "lock_env0 (Inr document0)" and dir = "''/app''"
        and w = "[(''/app/project.lock'', ''[root]'')]" and w' = "[]"
        and contents = "[]" and locked = "reread0 (TTab [])"
        and lockfile = "lockfile0 [member0]" and lockfile' = "lockfile0 [member0]"
        and toml = "[]" and document = document0 and workspace = workspace0]
    by (simp add: lock_env0_fields join_slash_def)
  have same: "readLockfile (lock_env0 (Inr document0)) ''/app''
      [(''/app/project.lock'', ''[root]''), (''/app/vba-block.lock'', ''[metadata]'')] =
    readLockfile (lock_env0 (Inr document0)) ''/app'' [(''/app/vba-block.lock'', ''[metadata]'')]"
    using inst by (simp add: lock_env0_fields join_slash_def)
  have rest: "writeLockfile (lock_env0 (Inr document0)) ''/app'' (lockfile0 [member0])
       [(''/app/project.lock'', ''[root]''), (''/app/vba-block.lock'', ''[metadata]'')] =
     Inr ([(''/app/vba-block.lock'', ''# Auto-generated by vba-blocks 0.1.0'' @ [newline] @ ''[metadata]''),
           (''/app/project.lock'', ''[root]''), (''/app/vba-block.lock'', ''[metadata]'')],
          lockfile0 [member0]) \<and>
   map_of document0 ''metadata'' = Some (TTab [(''version'', TStr ''1'')]) \<and>
   isLockfileValid (lock_env0 (Inr document0)) (lockfile0 [member0]) workspace0 = Inr True \<and>
   metadata_version (lf_metadata (lockfile0 [member0])) = Some ''1''"
    using inst toToml0 [of "Inr document0"] toml_document0 [of "Inr document0"]
      isLockfileValid0 [of "Inr document0"]
    by (simp add: lock_env0_fields join_slash_def)
  from found absent same rest show ?thesis by (intro conjI) blast+
qed

section \<open>The round trip of the lockfile\<close>



































end
